theory Spec2Isabelle
  imports Complex_Main
begin

section \<open>Floating-point scalars\<close>

text \<open>
  The scalars of \<^verbatim>\<open>gui.py\<close> are double-precision floats. A finite double is modelled by
  the real number it denotes; the two infinities and NaN are separate values, because the
  progress heuristic reaches them (\<^verbatim>\<open>np.log10\<close> of a non-positive number, a fractional power of
  a negative number). Rounding, overflow of finite results and the sign of zero are not
  modelled.
\<close>

datatype f64 = Fin real | PInf | NInf | NaN

datatype error =
  ZeroDivisionError | IndexError | AttributeError | ConfigValidationError | StepError

text \<open>Comparison \<^verbatim>\<open>a < b\<close>: false as soon as one side is NaN.\<close>

fun f_lt :: "f64 \<Rightarrow> f64 \<Rightarrow> bool" where
  "f_lt (Fin a) (Fin b) = (a < b)"
| "f_lt (Fin a) PInf = True"
| "f_lt NInf (Fin b) = True"
| "f_lt NInf PInf = True"
| "f_lt _ _ = False"

text \<open>\<^verbatim>\<open>a <= b\<close>, used to state bounds; false as soon as one side is NaN.\<close>

fun f_le :: "f64 \<Rightarrow> f64 \<Rightarrow> bool" where
  "f_le (Fin a) (Fin b) = (a \<le> b)"
| "f_le (Fin a) PInf = True"
| "f_le NInf (Fin b) = True"
| "f_le NInf PInf = True"
| "f_le PInf PInf = True"
| "f_le NInf NInf = True"
| "f_le _ _ = False"

fun is_nan :: "f64 \<Rightarrow> bool" where
  "is_nan NaN = True"
| "is_nan _ = False"

text \<open>The infinity with the sign of \<open>s\<close>; NaN when \<open>s\<close> is zero (\<open>0 * inf\<close>, \<open>0 / 0\<close>).\<close>

definition signed_inf :: "real \<Rightarrow> f64" where
  "signed_inf s = (if 0 < s then PInf else if s < 0 then NInf else NaN)"

fun f_neg :: "f64 \<Rightarrow> f64" where
  "f_neg (Fin a) = Fin (- a)"
| "f_neg PInf = NInf"
| "f_neg NInf = PInf"
| "f_neg NaN = NaN"

fun f_add :: "f64 \<Rightarrow> f64 \<Rightarrow> f64" where
  "f_add (Fin a) (Fin b) = Fin (a + b)"
| "f_add NaN _ = NaN"
| "f_add _ NaN = NaN"
| "f_add PInf NInf = NaN"
| "f_add NInf PInf = NaN"
| "f_add PInf _ = PInf"
| "f_add _ PInf = PInf"
| "f_add NInf _ = NInf"
| "f_add _ NInf = NInf"

definition f_sub :: "f64 \<Rightarrow> f64 \<Rightarrow> f64" where
  "f_sub a b = f_add a (f_neg b)"

fun f_mul :: "f64 \<Rightarrow> f64 \<Rightarrow> f64" where
  "f_mul (Fin a) (Fin b) = Fin (a * b)"
| "f_mul NaN _ = NaN"
| "f_mul _ NaN = NaN"
| "f_mul (Fin a) PInf = signed_inf a"
| "f_mul (Fin a) NInf = signed_inf (- a)"
| "f_mul PInf (Fin b) = signed_inf b"
| "f_mul NInf (Fin b) = signed_inf (- b)"
| "f_mul PInf PInf = PInf"
| "f_mul NInf NInf = PInf"
| "f_mul PInf NInf = NInf"
| "f_mul NInf PInf = NInf"

text \<open>
  IEEE division, as numpy scalars divide (a warning, never an exception). A zero divisor is
  taken as \<open>+0\<close>: the only numpy division of \<^verbatim>\<open>updateProgress\<close> divides by \<^verbatim>\<open>np.log10(tolerance)\<close>,
  whose zero (at \<open>tolerance = 1\<close>) is \<open>+0\<close>.
\<close>

fun np_div :: "f64 \<Rightarrow> f64 \<Rightarrow> f64" where
  "np_div (Fin a) (Fin b) = (if b = 0 then signed_inf a else Fin (a / b))"
| "np_div NaN _ = NaN"
| "np_div _ NaN = NaN"
| "np_div (Fin a) _ = Fin 0"
| "np_div PInf (Fin b) = (if b < 0 then NInf else PInf)"
| "np_div NInf (Fin b) = (if b < 0 then PInf else NInf)"
| "np_div _ _ = NaN"

text \<open>
  Python's \<^verbatim>\<open>/\<close> on floats: \<^verbatim>\<open>ZeroDivisionError\<close> when the divisor is zero, whatever the
  dividend; IEEE division otherwise. The attributes of the solver and of the configuration
  are taken to be Python floats (\<^verbatim>\<open>NumericOptionWidget.updateOpt\<close> stores \<^verbatim>\<open>float(...)\<close>).
\<close>

definition py_div :: "f64 \<Rightarrow> f64 \<Rightarrow> error + f64" where
  "py_div a b = (if b = Fin 0 then Inl ZeroDivisionError else Inr (np_div a b))"

text \<open>\<^verbatim>\<open>np.log10\<close>: \<open>-inf\<close> at zero, NaN below zero, never an exception.\<close>

fun np_log10 :: "f64 \<Rightarrow> f64" where
  "np_log10 (Fin x) = (if 0 < x then Fin (log 10 x) else if x = 0 then NInf else NaN)"
| "np_log10 PInf = PInf"
| "np_log10 NInf = NaN"
| "np_log10 NaN = NaN"

text \<open>
  \<^verbatim>\<open>A ** 0.5\<close> for a numpy scalar \<open>A\<close> (the result of \<^verbatim>\<open>np.log10(...) / np.log10(...)\<close>): the C
  \<^verbatim>\<open>pow\<close>, which gives NaN for a negative finite base and \<open>+inf\<close> for both infinities.
\<close>

fun np_pow_half :: "f64 \<Rightarrow> f64" where
  "np_pow_half (Fin x) = (if 0 \<le> x then Fin (sqrt x) else NaN)"
| "np_pow_half PInf = PInf"
| "np_pow_half NInf = PInf"
| "np_pow_half NaN = NaN"

text \<open>
  The builtins \<^verbatim>\<open>min(a, b)\<close> and \<^verbatim>\<open>max(a, b)\<close> keep the first argument unless the second
  compares strictly smaller (larger): with a NaN first argument they return NaN.
\<close>

definition py_min :: "f64 \<Rightarrow> f64 \<Rightarrow> f64" where
  "py_min a b = (if f_lt b a then b else a)"

definition py_max :: "f64 \<Rightarrow> f64 \<Rightarrow> f64" where
  "py_max a b = (if f_lt a b then b else a)"

text \<open>\<^verbatim>\<open>xs[-1]\<close>: the last element, \<^verbatim>\<open>IndexError\<close> on an empty sequence.\<close>

definition py_last :: "'a list \<Rightarrow> error + 'a" where
  "py_last xs = (if xs = [] then Inl IndexError else Inr (last xs))"

section \<open>Configuration, solver and worker state\<close>

record TerminationCondition =
  measurement :: "string option"
  tEnd :: f64
  steadyPeriod :: f64
  tolerance :: f64

text \<open>
  The fields of the solver object that \<^verbatim>\<open>gui.py\<close> reads and writes. \<^verbatim>\<open>errNow\<close> is the solver's
  attribute \<^verbatim>\<open>terminationCondition\<close> (the scalar error metric), named after the local variable
  that reads it, since the configuration has an attribute of the same name.
\<close>

record Solver =
  timeVector :: "f64 list"
  errNow :: f64
  progress :: f64

text \<open>
  The attributes of a \<^verbatim>\<open>SolverThread\<close> other than the shared solver and the configuration,
  which are passed beside it. \<^verbatim>\<open>refCond\<close> does not exist until the first assignment.
\<close>

record SolverThread =
  stop_flag :: bool
  stage :: int
  refCond :: "f64 option"

text \<open>Where the thread is in \<^verbatim>\<open>run\<close>; \<open>Created\<close> before \<^verbatim>\<open>start()\<close>, \<open>Raised\<close> when an
  exception left \<^verbatim>\<open>run\<close>.\<close>

datatype pc = Created | AtWhile | AtStep | AtUpdate | AtDone | Finished | Raised error

text \<open>A thread with the locals \<^verbatim>\<open>done\<close> and \<^verbatim>\<open>i\<close> of its \<^verbatim>\<open>run\<close> and its program counter.\<close>

record Worker = SolverThread +
  loop_done :: bool
  loop_i :: int
  pc :: pc

definition frac0 :: f64 where
  "frac0 = Fin (15 / 100)"

section \<open>The progress estimator\<close>

definition converging_A :: "f64 \<Rightarrow> f64 \<Rightarrow> f64 \<Rightarrow> error + f64" where
  "converging_A tol err ref =
     (case py_div (f_sub err tol) ref of
        Inl e \<Rightarrow> Inl e
      | Inr q \<Rightarrow> Inr (np_div (np_log10 (f_add tol q)) (np_log10 tol)))"

definition converging_P :: "f64 \<Rightarrow> f64" where
  "converging_P A =
     py_min (f_add frac0 (f_mul (f_sub (Fin 1) frac0) (np_pow_half A))) (Fin 1)"

definition updateProgress ::
  "TerminationCondition \<Rightarrow> 'b SolverThread_scheme \<times> 'a Solver_scheme \<Rightarrow>
     error + 'b SolverThread_scheme \<times> 'a Solver_scheme" where
  "updateProgress TC ts =
     (let th = fst ts; s = snd ts in
      if measurement TC = None then
        (case py_last (timeVector s) of
           Inl e \<Rightarrow> Inl e
         | Inr t \<Rightarrow>
             (case py_div t (tEnd TC) of
                Inl e \<Rightarrow> Inl e
              | Inr p \<Rightarrow> Inr (th, s\<lparr>progress := p\<rparr>)))
      else if stage th = 0 then
        (case py_last (timeVector s) of
           Inl e \<Rightarrow> Inl e
         | Inr t \<Rightarrow>
             (case py_div (f_mul frac0 t) (steadyPeriod TC) of
                Inl e \<Rightarrow> Inl e
              | Inr p \<Rightarrow>
                  Inr (if f_lt (errNow s) (Fin 1000000000)
                       then (th\<lparr>stage := 1, refCond := Some (errNow s)\<rparr>, s\<lparr>progress := p\<rparr>)
                       else (th, s\<lparr>progress := p\<rparr>))))
      else
        (case refCond th of
           None \<Rightarrow> Inl AttributeError
         | Some r \<Rightarrow>
             (case converging_A (tolerance TC) (errNow s) r of
                Inl e \<Rightarrow> Inl e
              | Inr A \<Rightarrow>
                  Inr (th, s\<lparr>progress := py_max (converging_P A) (progress s)\<rparr>))))"

section \<open>The worker loop\<close>

text \<open>
  \<^verbatim>\<open>SolverThread.__init__\<close>: a new lock (not modelled), progress reset on the shared solver,
  the stop flag cleared and the stage set to 0.
\<close>

definition SolverThread_init :: "'a Solver_scheme \<Rightarrow> Worker \<times> 'a Solver_scheme" where
  "SolverThread_init s =
     (\<lparr>stop_flag = False, stage = 0, refCond = None,
       loop_done = False, loop_i = 0, pc = Created\<rparr>,
      s\<lparr>progress := Fin 0\<rparr>)"

text \<open>\<^verbatim>\<open>Thread.start()\<close>: \<^verbatim>\<open>run\<close> begins with \<^verbatim>\<open>done = 0; i = 0\<close> and reaches the loop test.\<close>

definition Thread_start :: "Worker \<Rightarrow> Worker" where
  "Thread_start w = w\<lparr>loop_done := False, loop_i := 0, pc := AtWhile\<rparr>"

definition is_alive :: "Worker \<Rightarrow> bool" where
  "is_alive w = (pc w = AtWhile \<or> pc w = AtStep \<or> pc w = AtUpdate \<or> pc w = AtDone)"

text \<open>\<^verbatim>\<open>SolverThread.stop\<close>, callable from any thread at any moment.\<close>

definition SolverThread_stop :: "Worker \<Rightarrow> Worker" where
  "SolverThread_stop w = w\<lparr>stop_flag := True\<rparr>"

text \<open>
  One move of \<^verbatim>\<open>SolverThread.run\<close>. The solver's \<^verbatim>\<open>step()\<close> is a parameter: it returns the
  completion flag and the solver after the step, or raises. The call is one atomic move
  (the lock is held around it, and the stop flag is only read at the loop test).
\<close>

definition run_move ::
  "('a Solver_scheme \<Rightarrow> error + bool \<times> 'a Solver_scheme) \<Rightarrow> TerminationCondition \<Rightarrow>
     Worker \<times> 'a Solver_scheme \<Rightarrow> Worker \<times> 'a Solver_scheme" where
  "run_move step TC ws =
     (let w = fst ws; s = snd ws in
      case pc w of
        AtWhile \<Rightarrow>
          if \<not> stop_flag w \<and> \<not> loop_done w
          then (w\<lparr>loop_i := loop_i w + 1, pc := AtStep\<rparr>, s)
          else (w\<lparr>stop_flag := True, pc := Finished\<rparr>, s)
      | AtStep \<Rightarrow>
          (case step s of
             Inl e \<Rightarrow> (w\<lparr>pc := Raised e\<rparr>, s)
           | Inr ds \<Rightarrow> (w\<lparr>loop_done := fst ds, pc := AtUpdate\<rparr>, snd ds))
      | AtUpdate \<Rightarrow>
          if loop_i w mod 5 = 0
          then (case updateProgress TC (w, s) of
                  Inl e \<Rightarrow> (w\<lparr>pc := Raised e\<rparr>, s)
                | Inr ws' \<Rightarrow> ((fst ws')\<lparr>pc := AtDone\<rparr>, snd ws'))
          else (w\<lparr>pc := AtDone\<rparr>, s)
      | AtDone \<Rightarrow>
          if loop_done w
          then (w\<lparr>pc := AtWhile\<rparr>, s\<lparr>progress := Fin 1\<rparr>)
          else (w\<lparr>pc := AtWhile\<rparr>, s)
      | _ \<Rightarrow> (w, s))"

text \<open>
  An interleaving of the worker with the callers of \<^verbatim>\<open>stop()\<close>: \<open>Tick\<close> is one move of
  the worker, \<open>Stop\<close> a call of \<^verbatim>\<open>stop()\<close> from another thread.
\<close>

datatype action = Tick | Stop

fun exec ::
  "('a Solver_scheme \<Rightarrow> error + bool \<times> 'a Solver_scheme) \<Rightarrow> TerminationCondition \<Rightarrow>
     action list \<Rightarrow> Worker \<times> 'a Solver_scheme \<Rightarrow> Worker \<times> 'a Solver_scheme" where
  "exec step TC [] ws = ws"
| "exec step TC (Tick # as) ws = exec step TC as (run_move step TC ws)"
| "exec step TC (Stop # as) ws = exec step TC as (SolverThread_stop (fst ws), snd ws)"

text \<open>
  To count the calls of \<^verbatim>\<open>solver.step()\<close>, a solver with a counter, and a wrapper that
  raises the counter by one each time the wrapped \<^verbatim>\<open>step()\<close> is called and returns.
\<close>

record CountedSolver = Solver +
  step_count :: nat

definition counting ::
  "('a CountedSolver_scheme \<Rightarrow> error + bool \<times> 'a CountedSolver_scheme) \<Rightarrow>
     'a CountedSolver_scheme \<Rightarrow> error + bool \<times> 'a CountedSolver_scheme" where
  "counting f c =
     (case f c of
        Inl e \<Rightarrow> Inl e
      | Inr ds \<Rightarrow> Inr (fst ds, (snd ds)\<lparr>step_count := Suc (step_count c)\<rparr>))"

section \<open>The lifecycle controller\<close>

text \<open>The calls that \<^verbatim>\<open>SolverWidget.run\<close> makes on the configuration, the solver and the thread.\<close>

datatype call = Validate | Setup | NewFlameSolver | Initialize | ThreadStart

text \<open>
  The attributes of \<^verbatim>\<open>SolverWidget\<close> behind the three buttons. \<open>detached\<close> holds the thread
  objects that \<^verbatim>\<open>self.solverThread\<close> no longer refers to (they keep running if they were
  alive); \<open>calls\<close> records the calls made so far. All threads work on the one solver object.
\<close>

record 'a SolverWidget =
  conf :: TerminationCondition
  solver :: "'a Solver_scheme option"
  solverThread :: "Worker option"
  detached :: "Worker list"
  timerActive :: bool
  pauseText :: string
  calls :: "call list"

text \<open>
  \<^verbatim>\<open>SolverWidget.run\<close> (the Start button). \<open>validate\<close> tells whether \<^verbatim>\<open>conf.validate()\<close> accepts
  the configuration and \<open>newSolver\<close> gives the solver that \<^verbatim>\<open>pyro.FlameSolver(conf)\<close> and
  \<^verbatim>\<open>initialize()\<close> produce; both are parameters.
\<close>

definition SolverWidget_run ::
  "(TerminationCondition \<Rightarrow> bool) \<Rightarrow> (TerminationCondition \<Rightarrow> 'a Solver_scheme) \<Rightarrow>
     'a SolverWidget \<Rightarrow> error + 'a SolverWidget" where
  "SolverWidget_run validate newSolver W =
     (if (case solverThread W of None \<Rightarrow> False | Some w \<Rightarrow> is_alive w) then Inr W
      else
        (case (case solver W of
                 None \<Rightarrow>
                   if validate (conf W)
                   then Inr (newSolver (conf W),
                             calls W @ [Validate, Setup, NewFlameSolver, Initialize])
                   else Inl ConfigValidationError
               | Some s \<Rightarrow> Inr (s, calls W)) of
           Inl e \<Rightarrow> Inl e
         | Inr sc \<Rightarrow>
             (let ws = SolverThread_init (fst sc) in
              Inr (W\<lparr>solver := Some (snd ws),
                     solverThread := Some (Thread_start (fst ws)),
                     detached := (case solverThread W of
                                    None \<Rightarrow> detached W
                                  | Some old \<Rightarrow> detached W @ [old]),
                     timerActive := True,
                     calls := snd sc @ [ThreadStart]\<rparr>))))"

text \<open>\<^verbatim>\<open>SolverWidget.pause\<close> (the Pause button, which also resumes).\<close>

definition SolverWidget_pause ::
  "(TerminationCondition \<Rightarrow> bool) \<Rightarrow> (TerminationCondition \<Rightarrow> 'a Solver_scheme) \<Rightarrow>
     'a SolverWidget \<Rightarrow> error + 'a SolverWidget" where
  "SolverWidget_pause validate newSolver W =
     (case solverThread W of
        None \<Rightarrow> Inr W
      | Some w \<Rightarrow>
          if \<not> is_alive w
          then (case SolverWidget_run validate newSolver (W\<lparr>pauseText := ''Pause''\<rparr>) of
                  Inl e \<Rightarrow> Inl e
                | Inr W' \<Rightarrow> Inr (W'\<lparr>timerActive := True\<rparr>))
          else Inr (W\<lparr>pauseText := ''Continue'',
                      solverThread := Some (SolverThread_stop w),
                      timerActive := False\<rparr>))"

text \<open>\<^verbatim>\<open>SolverWidget.stop\<close> (the Stop button).\<close>

definition SolverWidget_stop :: "'a SolverWidget \<Rightarrow> 'a SolverWidget" where
  "SolverWidget_stop W =
     (case solverThread W of
        None \<Rightarrow> W
      | Some w \<Rightarrow> W\<lparr>solverThread := Some (SolverThread_stop w), timerActive := False\<rparr>)"

text \<open>The worker loops that are running: the current thread and the detached ones.\<close>

definition active_workers :: "'a SolverWidget \<Rightarrow> nat" where
  "active_workers W =
     (case solverThread W of None \<Rightarrow> 0 | Some w \<Rightarrow> if is_alive w then 1 else 0)
     + length (filter is_alive (detached W))"

section \<open>Formulas of the specification\<close>

text \<open>
  The specification's \<open>A\<close> and candidate progress of the Converging stage, over the reals,
  written from its words: \<open>A = log10(tolerance + (errNow - tolerance)/referenceError) /
  log10(tolerance)\<close> and \<open>frac0 + (1 - frac0) * A^0.5\<close> clamped to at most 1.
\<close>

definition spec_A :: "real \<Rightarrow> real \<Rightarrow> real \<Rightarrow> real" where
  "spec_A tol err ref = log 10 (tol + (err - tol) / ref) / log 10 tol"

definition spec_candidate :: "real \<Rightarrow> real \<Rightarrow> real \<Rightarrow> real" where
  "spec_candidate tol err ref =
     min (15 / 100 + (1 - 15 / 100) * spec_A tol err ref powr (5 / 10)) 1"

text \<open>
  The progress values published by successive invocations of \<^verbatim>\<open>updateProgress\<close> in one run.
  Each invocation sees the diagnostics the solver then has (its time vector and its error
  metric); an invocation that raises ends the run.
\<close>

fun published ::
  "TerminationCondition \<Rightarrow> (f64 list \<times> f64) list \<Rightarrow>
     'b SolverThread_scheme \<times> 'a Solver_scheme \<Rightarrow> f64 list" where
  "published TC [] ts = []"
| "published TC (d # ds) ts =
     (case updateProgress TC (fst ts, (snd ts)\<lparr>timeVector := fst d, errNow := snd d\<rparr>) of
        Inl e \<Rightarrow> []
      | Inr ts' \<Rightarrow> progress (snd ts') # published TC ds ts')"

text \<open>The closed interval from 0 to 1; NaN is outside.\<close>

definition in_unit :: "f64 \<Rightarrow> bool" where
  "in_unit p = (f_le (Fin 0) p \<and> f_le p (Fin 1))"

text \<open>Whether \<open>A\<close> is NaN or a negative number: where \<^verbatim>\<open>A ** 0.5\<close> is NaN.\<close>

fun nan_or_negative :: "f64 \<Rightarrow> bool" where
  "nan_or_negative (Fin x) = (x < 0)"
| "nan_or_negative NaN = True"
| "nan_or_negative _ = False"

text \<open>
  The moves a worker whose stop flag is set still makes before its thread is dead, counted
  from each point of \<^verbatim>\<open>run\<close>.
\<close>

fun moves_left :: "pc \<Rightarrow> nat" where
  "moves_left AtStep = 4"
| "moves_left AtUpdate = 3"
| "moves_left AtDone = 2"
| "moves_left AtWhile = 1"
| "moves_left _ = 0"

text \<open>
  At the loop test and after the loop, a completion flag that is set comes with a published
  progress of exactly 1.
\<close>

definition done_forced :: "Worker \<times> 'a Solver_scheme \<Rightarrow> bool" where
  "done_forced ws =
     ((pc (fst ws) = AtWhile \<or> pc (fst ws) = Finished) \<and> loop_done (fst ws)
        \<longrightarrow> progress (snd ws) = Fin 1)"

section \<open>Arithmetic of the scalars\<close>

lemma log10_1000: "log 10 1000 = 3"
proof -
  have "log 10 ((10::real) ^ 3) = real 3" by (rule log_pow_cancel) simp_all
  then show ?thesis by simp
qed

lemma log10_milli: "log 10 (1 / 1000) = - 3"
  using log10_1000 by (simp add: log_divide)

lemma log10_nonzero:
  assumes "0 < tol" "tol \<noteq> 1"
  shows "log 10 tol \<noteq> 0"
proof
  assume z: "log 10 tol = 0"
  have "tol < 1 \<or> 1 < tol" using assms by linarith
  then show False
  proof
    assume "tol < 1"
    then have "log 10 tol < 0" using assms by simp
    with z show False by simp
  next
    assume "1 < tol"
    then have "0 < log 10 tol" using assms by simp
    with z show False by simp
  qed
qed

lemma py_max_Fin: "py_max (Fin a) (Fin b) = Fin (max a b)"
  by (simp add: py_max_def max_def)

lemma py_min_Fin: "py_min (Fin a) (Fin b) = Fin (min a b)"
  by (simp add: py_min_def min_def)

section \<open>The three branches of the estimator\<close>

lemma converging_A_Fin:
  assumes "r \<noteq> 0" "0 < tol" "tol \<noteq> 1" "0 < tol + (err - tol) / r"
  shows "converging_A (Fin tol) (Fin err) (Fin r) = Inr (Fin (spec_A tol err r))"
  using assms log10_nonzero [of tol]
  by (simp add: converging_A_def py_div_def f_sub_def spec_A_def)

lemma converging_P_Fin:
  assumes "0 \<le> a"
  shows "converging_P (Fin a) = Fin (min (15 / 100 + (1 - 15 / 100) * a powr (5 / 10)) 1)"
proof -
  have "a powr (5 / 10) = sqrt a" using assms powr_half_sqrt [of a] by simp
  then show ?thesis using assms
    by (simp add: converging_P_def frac0_def f_sub_def py_min_Fin)
qed

text \<open>
  C6. With no steady-state measurement configured, \<^verbatim>\<open>updateProgress\<close> sets the progress to the
  last element of the time vector divided by \<open>tEnd\<close> and leaves the stage alone. For
  \<open>tEnd = 10\<close> and updates at the times 0, 2, 5 and 10 the published values are 0, 0.2, 0.5
  and 1.
\<close>

theorem updateProgress_fixed_end:
  "(measurement TC = None \<and> timeVector s \<noteq> [] \<and> last (timeVector s) = Fin t \<and>
    tEnd TC = Fin e \<and> e \<noteq> 0 \<longrightarrow>
      updateProgress TC (th, s) = Inr (th, s\<lparr>progress := Fin (t / e)\<rparr>))
   \<and> (measurement TC = None \<and> tEnd TC = Fin 10 \<longrightarrow>
      published TC
        [([Fin 0], e0), ([Fin 0, Fin 2], e1), ([Fin 0, Fin 2, Fin 5], e2),
         ([Fin 0, Fin 2, Fin 5, Fin 10], e3)] (th, s)
      = [Fin 0, Fin (2 / 10), Fin (5 / 10), Fin 1])"
  by (simp add: updateProgress_def py_last_def py_div_def)

theorem updateProgress_fixed_end_witness:
  "updateProgress \<lparr>measurement = None, tEnd = Fin 10, steadyPeriod = Fin 1,
                   tolerance = Fin (1 / 1000)\<rparr>
     (\<lparr>stop_flag = False, stage = 0, refCond = None\<rparr>,
      \<lparr>timeVector = [Fin 0, Fin 2], errNow = Fin 10000000000, progress = Fin 0\<rparr>)
   = Inr (\<lparr>stop_flag = False, stage = 0, refCond = None\<rparr>,
          \<lparr>timeVector = [Fin 0, Fin 2], errNow = Fin 10000000000, progress = Fin (1 / 5)\<rparr>)
   \<and> published \<lparr>measurement = None, tEnd = Fin 10, steadyPeriod = Fin 1,
                   tolerance = Fin (1 / 1000)\<rparr>
        [([Fin 0], Fin 10000000000), ([Fin 0, Fin 2], Fin 10000000000),
         ([Fin 0, Fin 2, Fin 5], Fin 10000000000),
         ([Fin 0, Fin 2, Fin 5, Fin 10], Fin 10000000000)]
        (\<lparr>stop_flag = False, stage = 0, refCond = None\<rparr>,
         \<lparr>timeVector = [Fin 0, Fin 2], errNow = Fin 10000000000, progress = Fin 0\<rparr>)
      = [Fin 0, Fin (1 / 5), Fin (1 / 2), Fin 1]"
  using updateProgress_fixed_end
    [of "\<lparr>measurement = None, tEnd = Fin 10, steadyPeriod = Fin 1,
          tolerance = Fin (1 / 1000)\<rparr>"
        "\<lparr>timeVector = [Fin 0, Fin 2], errNow = Fin 10000000000, progress = Fin 0\<rparr>"
        2 10 "\<lparr>stop_flag = False, stage = 0, refCond = None\<rparr>"
        "Fin 10000000000" "Fin 10000000000" "Fin 10000000000" "Fin 10000000000"]
  by simp

text \<open>
  C5. In the Seeking stage (stage 0, a measurement configured) \<^verbatim>\<open>updateProgress\<close> sets the
  progress to \<open>0.15 * currentTime / steadyPeriod\<close>; the stage becomes 1 and the current error
  is stored as the reference error exactly when the error compares below \<open>1e9\<close>, and
  nothing else changes otherwise. With \<open>steadyPeriod = 1\<close>, time 0.5 and an error that
  is not below \<open>1e9\<close>, the progress is 0.075 and the stage stays 0.
\<close>

theorem updateProgress_seeking:
  "(measurement TC \<noteq> None \<and> stage th = 0 \<and> timeVector s \<noteq> [] \<and>
    last (timeVector s) = Fin t \<and> steadyPeriod TC = Fin p \<and> p \<noteq> 0 \<longrightarrow>
      updateProgress TC (th, s) =
        Inr (if f_lt (errNow s) (Fin 1000000000)
             then th\<lparr>stage := 1, refCond := Some (errNow s)\<rparr> else th,
             s\<lparr>progress := Fin (15 / 100 * t / p)\<rparr>))
   \<and> (measurement TC \<noteq> None \<and> stage th = 0 \<and> timeVector s \<noteq> [] \<and>
      last (timeVector s) = Fin (5 / 10) \<and> steadyPeriod TC = Fin 1 \<and>
      \<not> f_lt (errNow s) (Fin 1000000000) \<longrightarrow>
      updateProgress TC (th, s) = Inr (th, s\<lparr>progress := Fin (75 / 1000)\<rparr>))"
  by (auto simp add: updateProgress_def py_last_def py_div_def frac0_def)

theorem updateProgress_seeking_witness:
  "updateProgress \<lparr>measurement = Some ''Q'', tEnd = Fin 10, steadyPeriod = Fin 1,
                   tolerance = Fin (1 / 1000)\<rparr>
     (\<lparr>stop_flag = False, stage = 0, refCond = None\<rparr>,
      \<lparr>timeVector = [Fin 0, Fin (1 / 2)], errNow = Fin 10000000000, progress = Fin 0\<rparr>)
   = Inr (\<lparr>stop_flag = False, stage = 0, refCond = None\<rparr>,
          \<lparr>timeVector = [Fin 0, Fin (1 / 2)], errNow = Fin 10000000000,
           progress = Fin (3 / 40)\<rparr>)
   \<and> updateProgress \<lparr>measurement = Some ''Q'', tEnd = Fin 10, steadyPeriod = Fin 1,
                   tolerance = Fin (1 / 1000)\<rparr>
     (\<lparr>stop_flag = False, stage = 0, refCond = None\<rparr>,
      \<lparr>timeVector = [Fin 0, Fin (1 / 2)], errNow = Fin 100, progress = Fin 0\<rparr>)
   = Inr (\<lparr>stop_flag = False, stage = 1, refCond = Some (Fin 100)\<rparr>,
          \<lparr>timeVector = [Fin 0, Fin (1 / 2)], errNow = Fin 100, progress = Fin (3 / 40)\<rparr>)"
  using updateProgress_seeking
    [of "\<lparr>measurement = Some ''Q'', tEnd = Fin 10, steadyPeriod = Fin 1,
          tolerance = Fin (1 / 1000)\<rparr>"
        "\<lparr>stop_flag = False, stage = 0, refCond = None\<rparr>"
        "\<lparr>timeVector = [Fin 0, Fin (1 / 2)], errNow = Fin 10000000000, progress = Fin 0\<rparr>"
        "1 / 2" 1]
    updateProgress_seeking
    [of "\<lparr>measurement = Some ''Q'', tEnd = Fin 10, steadyPeriod = Fin 1,
          tolerance = Fin (1 / 1000)\<rparr>"
        "\<lparr>stop_flag = False, stage = 0, refCond = None\<rparr>"
        "\<lparr>timeVector = [Fin 0, Fin (1 / 2)], errNow = Fin 100, progress = Fin 0\<rparr>"
        "1 / 2" 1]
  by simp

text \<open>
  C3. In the Converging stage (stage 1) with a finite non-zero reference error and a finite
  tolerance other than 1, \<^verbatim>\<open>updateProgress\<close> sets the progress to
  \<open>max(min(0.15 + 0.85 * A^0.5, 1), previous)\<close>, \<open>A\<close> being the specification's quotient of
  logarithms, wherever that quotient is defined and not negative. When the error equals the
  tolerance, \<open>A\<close> is 1 and the candidate is exactly 1.
\<close>

theorem updateProgress_converging:
  assumes "measurement TC \<noteq> None" and "stage th = 1" and "refCond th = Some (Fin r)"
    and "r \<noteq> 0" and "tolerance TC = Fin tol" and "0 < tol" and "tol \<noteq> 1"
    and "errNow s = Fin err"
  shows "(0 < tol + (err - tol) / r \<and> 0 \<le> spec_A tol err r \<and> progress s = Fin prev \<longrightarrow>
           updateProgress TC (th, s)
             = Inr (th, s\<lparr>progress := Fin (max (spec_candidate tol err r) prev)\<rparr>))
       \<and> (err = tol \<longrightarrow>
           spec_A tol err r = 1 \<and> spec_candidate tol err r = 1 \<and>
           updateProgress TC (th, s) = Inr (th, s\<lparr>progress := py_max (Fin 1) (progress s)\<rparr>))"
proof (intro conjI impI)
  assume h: "0 < tol + (err - tol) / r \<and> 0 \<le> spec_A tol err r \<and> progress s = Fin prev"
  have A: "converging_A (Fin tol) (Fin err) (Fin r) = Inr (Fin (spec_A tol err r))"
    using assms h by (intro converging_A_Fin) simp_all
  have P: "converging_P (Fin (spec_A tol err r)) = Fin (spec_candidate tol err r)"
    using h by (simp add: converging_P_Fin spec_candidate_def)
  show "updateProgress TC (th, s)
          = Inr (th, s\<lparr>progress := Fin (max (spec_candidate tol err r) prev)\<rparr>)"
    using assms h A P by (auto simp add: updateProgress_def py_max_Fin)
next
  assume e: "err = tol"
  show one: "spec_A tol err r = 1"
    using assms e log10_nonzero [of tol] by (simp add: spec_A_def)
  show "spec_candidate tol err r = 1"
    using one by (simp add: spec_candidate_def)
  have A: "converging_A (Fin tol) (Fin err) (Fin r) = Inr (Fin 1)"
    using assms e one converging_A_Fin [of r tol err] by simp
  have P: "converging_P (Fin 1) = Fin 1"
    using converging_P_Fin [of 1] by simp
  show "updateProgress TC (th, s) = Inr (th, s\<lparr>progress := py_max (Fin 1) (progress s)\<rparr>)"
    using assms A P by (auto simp add: updateProgress_def)
qed

theorem updateProgress_converging_witness:
  "updateProgress \<lparr>measurement = Some ''Q'', tEnd = Fin 10, steadyPeriod = Fin 1,
                   tolerance = Fin (1 / 1000)\<rparr>
     (\<lparr>stop_flag = False, stage = 1, refCond = Some (Fin 100)\<rparr>,
      \<lparr>timeVector = [Fin 2], errNow = Fin (1 / 1000), progress = Fin (3 / 10)\<rparr>)
   = Inr (\<lparr>stop_flag = False, stage = 1, refCond = Some (Fin 100)\<rparr>,
          \<lparr>timeVector = [Fin 2], errNow = Fin (1 / 1000), progress = Fin 1\<rparr>)"
  using updateProgress_converging
    [of "\<lparr>measurement = Some ''Q'', tEnd = Fin 10, steadyPeriod = Fin 1,
          tolerance = Fin (1 / 1000)\<rparr>"
        "\<lparr>stop_flag = False, stage = 1, refCond = Some (Fin 100)\<rparr>" 100 "1 / 1000"
        "\<lparr>timeVector = [Fin 2], errNow = Fin (1 / 1000), progress = Fin (3 / 10)\<rparr>"
        "1 / 1000" "3 / 10"]
  by (simp add: py_max_Fin)

section \<open>Bounds and NaN\<close>

lemma converging_P_nan_iff: "is_nan (converging_P A) \<longleftrightarrow> nan_or_negative A"
  by (cases A) (simp_all add: converging_P_def frac0_def f_sub_def py_min_def signed_inf_def)

lemma py_max_nan_iff: "is_nan (py_max P q) \<longleftrightarrow> is_nan P"
  by (cases P; cases q) (simp_all add: py_max_def)

text \<open>
  C2. The published progress is meant to stay between 0 and 1. At this input it does not:
  with a steady period of 1 the Seeking stage at time 10 publishes 1.5 (nothing clamps
  \<open>0.15 * time / steadyPeriod\<close>), that update enters the Converging stage, and the next
  update, whose clamped candidate is 1, keeps 1.5 as the larger value.
\<close>

theorem progress_exceeds_one:
  "published \<lparr>measurement = Some ''Q'', tEnd = Fin 10, steadyPeriod = Fin 1,
              tolerance = Fin (1 / 1000)\<rparr>
     [([Fin 10], Fin 100), ([Fin 11], Fin (1 / 1000))]
     (SolverThread_init \<lparr>timeVector = [], errNow = Fin 10000000000, progress = Fin 0\<rparr>)
   = [Fin (3 / 2), Fin (3 / 2)]
   \<and> \<not> in_unit (Fin (3 / 2))"
proof -
  have "converging_A (Fin (1 / 1000)) (Fin (1 / 1000)) (Fin 100) = Inr (Fin 1)"
    by (simp add: converging_A_def py_div_def f_sub_def log10_milli)
  then show ?thesis
    by (simp add: SolverThread_init_def updateProgress_def py_last_def py_div_def
        converging_P_def frac0_def f_sub_def py_min_def py_max_def in_unit_def)
qed

text \<open>
  C7, as amended. Nothing clamps or guards \<open>A\<close> before the square root. In the Converging
  stage with a reference error other than zero \<^verbatim>\<open>updateProgress\<close> does not raise, and the
  progress it publishes is not NaN whenever \<open>A\<close> is neither NaN nor negative.
\<close>

theorem updateProgress_converging_nan:
  assumes "measurement TC \<noteq> None" and "stage th \<noteq> 0" and "refCond th = Some r"
    and "r \<noteq> Fin 0"
  shows "\<exists>A p. converging_A (tolerance TC) (errNow s) r = Inr A
           \<and> updateProgress TC (th, s) = Inr (th, s\<lparr>progress := p\<rparr>)
           \<and> (\<not> nan_or_negative A \<longrightarrow> \<not> is_nan p)"
proof -
  obtain A where A: "converging_A (tolerance TC) (errNow s) r = Inr A"
    using assms(4) by (simp add: converging_A_def py_div_def)
  have "updateProgress TC (th, s)
          = Inr (th, s\<lparr>progress := py_max (converging_P A) (progress s)\<rparr>)"
    using assms A by (auto simp add: updateProgress_def)
  moreover have "is_nan (py_max (converging_P A) (progress s)) \<longleftrightarrow> nan_or_negative A"
    by (simp add: py_max_nan_iff converging_P_nan_iff)
  ultimately show ?thesis using A by blast
qed

theorem updateProgress_converging_nan_witness:
  "\<exists>A p. converging_A (Fin (1 / 1000)) (Fin (2 / 1000)) (Fin 100) = Inr A
     \<and> updateProgress \<lparr>measurement = Some ''Q'', tEnd = Fin 10, steadyPeriod = Fin 1,
                   tolerance = Fin (1 / 1000)\<rparr>
         (\<lparr>stop_flag = False, stage = 1, refCond = Some (Fin 100)\<rparr>,
          \<lparr>timeVector = [Fin 2], errNow = Fin (2 / 1000), progress = Fin (1 / 2)\<rparr>)
       = Inr (\<lparr>stop_flag = False, stage = 1, refCond = Some (Fin 100)\<rparr>,
          \<lparr>timeVector = [Fin 2], errNow = Fin (2 / 1000), progress = p\<rparr>)
     \<and> \<not> nan_or_negative A \<and> \<not> is_nan p"
proof -
  have l: "0 < log 10 (101 / 100000) / (- 3)"
    by (simp add: zero_less_divide_iff)
  have A: "converging_A (Fin (1 / 1000)) (Fin (2 / 1000)) (Fin 100)
             = Inr (Fin (log 10 (101 / 100000) / (- 3)))"
    by (simp add: converging_A_def py_div_def f_sub_def log10_milli)
  from updateProgress_converging_nan
    [of "\<lparr>measurement = Some ''Q'', tEnd = Fin 10, steadyPeriod = Fin 1,
          tolerance = Fin (1 / 1000)\<rparr>"
        "\<lparr>stop_flag = False, stage = 1, refCond = Some (Fin 100)\<rparr>" "Fin 100"
        "\<lparr>timeVector = [Fin 2], errNow = Fin (2 / 1000), progress = Fin (1 / 2)\<rparr>"]
  obtain A' p where
    a: "converging_A (Fin (1 / 1000)) (Fin (2 / 1000)) (Fin 100) = Inr A'"
    and u: "updateProgress \<lparr>measurement = Some ''Q'', tEnd = Fin 10, steadyPeriod = Fin 1,
                   tolerance = Fin (1 / 1000)\<rparr>
         (\<lparr>stop_flag = False, stage = 1, refCond = Some (Fin 100)\<rparr>,
          \<lparr>timeVector = [Fin 2], errNow = Fin (2 / 1000), progress = Fin (1 / 2)\<rparr>)
       = Inr (\<lparr>stop_flag = False, stage = 1, refCond = Some (Fin 100)\<rparr>,
          \<lparr>timeVector = [Fin 2], errNow = Fin (2 / 1000), progress = p\<rparr>)"
    and n: "\<not> nan_or_negative A' \<longrightarrow> \<not> is_nan p"
    by auto
  have "A' = Fin (log 10 (101 / 100000) / (- 3))" using a A by simp
  then have "\<not> nan_or_negative A'" using l by (simp del: divide_minus_right)
  with a u n show ?thesis by blast
qed

text \<open>
  With a negative \<open>A\<close> a NaN is published: tolerance 0.001, reference error 100 and a
  current error of 1000 make the quotient of logarithms negative.
\<close>

theorem updateProgress_publishes_nan_counterexample:
  "updateProgress \<lparr>measurement = Some ''Q'', tEnd = Fin 10, steadyPeriod = Fin 1,
                   tolerance = Fin (1 / 1000)\<rparr>
     (\<lparr>stop_flag = False, stage = 1, refCond = Some (Fin 100)\<rparr>,
      \<lparr>timeVector = [Fin 2], errNow = Fin 1000, progress = Fin (1 / 2)\<rparr>)
   = Inr (\<lparr>stop_flag = False, stage = 1, refCond = Some (Fin 100)\<rparr>,
      \<lparr>timeVector = [Fin 2], errNow = Fin 1000, progress = NaN\<rparr>)"
proof -
  have "converging_A (Fin (1 / 1000)) (Fin 1000) (Fin 100)
          = Inr (Fin (log 10 (1000099 / 100000) / (- 3)))"
    by (simp add: converging_A_def py_div_def f_sub_def log10_milli)
  moreover have "log 10 (1000099 / 100000) / (- 3) < (0::real)"
    by simp
  ultimately show ?thesis
    by (simp add: updateProgress_def converging_P_def frac0_def f_sub_def py_min_def py_max_def
        del: divide_minus_right)
qed

text \<open>
  C1. The progress published by successive updates of one run is meant never to decrease.
  At this input it does: the run enters the Converging stage with reference error 100 at
  progress 0.15, the error then rises to 200, \<open>A\<close> is negative, and the next published
  value is NaN, which is not at least 0.15.
\<close>

theorem progress_regresses_to_nan:
  "published \<lparr>measurement = Some ''Q'', tEnd = Fin 10, steadyPeriod = Fin 1,
              tolerance = Fin (1 / 1000)\<rparr>
     [([Fin 1], Fin 100), ([Fin 2], Fin 200)]
     (SolverThread_init \<lparr>timeVector = [], errNow = Fin 10000000000, progress = Fin 0\<rparr>)
   = [Fin (15 / 100), NaN]
   \<and> \<not> f_le (Fin (15 / 100)) NaN"
proof -
  have "converging_A (Fin (1 / 1000)) (Fin 200) (Fin 100)
          = Inr (Fin (log 10 (200099 / 100000) / (- 3)))"
    by (simp add: converging_A_def py_div_def f_sub_def log10_milli)
  moreover have "log 10 (200099 / 100000) / (- 3) < (0::real)"
    by simp
  ultimately show ?thesis
    by (simp add: SolverThread_init_def updateProgress_def py_last_def py_div_def
        converging_P_def frac0_def f_sub_def py_min_def py_max_def
        del: divide_minus_right)
qed

section \<open>The worker loop: completion and cancellation\<close>

lemma updateProgress_thread:
  assumes "updateProgress TC (w, s) = Inr ws'"
  shows "\<exists>st rc. fst ws' = w\<lparr>stage := st, refCond := rc\<rparr>"
proof -
  have a: "w = w\<lparr>stage := stage w, refCond := refCond w\<rparr>" by simp
  show ?thesis using assms
    apply (simp add: updateProgress_def Let_def split: if_splits sum.splits option.splits)
    apply (metis a fst_conv)+
    done
qed

lemma run_move_stop_flag:
  "stop_flag (fst ws) \<Longrightarrow> stop_flag (fst (run_move step TC ws))"
  using updateProgress_thread [of TC "fst ws" "snd ws"]
  by (cases "pc (fst ws)")
     (auto simp add: run_move_def Let_def split: sum.splits)

lemma run_move_pc:
  assumes "stop_flag (fst ws)"
  shows "pc (fst (run_move step TC ws)) \<noteq> AtStep"
  using assms updateProgress_thread [of TC "fst ws" "snd ws"]
  by (cases "pc (fst ws)")
     (auto simp add: run_move_def Let_def split: sum.splits)

lemma run_move_moves_left:
  assumes "stop_flag (fst ws)"
  shows "moves_left (pc (fst (run_move step TC ws))) \<le> moves_left (pc (fst ws)) - 1"
  using assms updateProgress_thread [of TC "fst ws" "snd ws"]
  by (cases "pc (fst ws)")
     (auto simp add: run_move_def Let_def split: sum.splits)

lemma exec_terminates_after_stop:
  "stop_flag (fst ws) \<Longrightarrow> moves_left (pc (fst ws)) \<le> count_list acts Tick \<Longrightarrow>
   moves_left (pc (fst (exec step TC acts ws))) = 0"
proof (induction acts arbitrary: ws)
  case Nil
  then show ?case by simp
next
  case (Cons a acts)
  show ?case
  proof (cases a)
    case Tick
    have f: "stop_flag (fst (run_move step TC ws))"
      using Cons.prems(1) by (rule run_move_stop_flag)
    have "moves_left (pc (fst (run_move step TC ws))) \<le> count_list acts Tick"
      using run_move_moves_left [OF Cons.prems(1), of step TC] Cons.prems(2) Tick by simp
    from Cons.IH [OF f this] show ?thesis using Tick by simp
  next
    case Stop
    have "moves_left (pc (fst (exec step TC acts (SolverThread_stop (fst ws), snd ws)))) = 0"
      using Cons.IH [of "(SolverThread_stop (fst ws), snd ws)"] Cons.prems Stop
      by (simp add: SolverThread_stop_def)
    then show ?thesis using Stop by simp
  qed
qed

lemma moves_left_alive: "moves_left (pc w) = 0 \<longleftrightarrow> \<not> is_alive w"
  by (cases "pc w") (simp_all add: is_alive_def)

lemma updateProgress_solver:
  assumes "updateProgress TC (w, s) = Inr ws'"
  shows "\<exists>p. snd ws' = s\<lparr>progress := p\<rparr>"
  using assms
  by (auto simp add: updateProgress_def Let_def split: if_splits sum.splits option.splits)

lemma run_move_count:
  "step_count (snd (run_move (counting f) TC ws))
     = step_count (snd ws)
       + (if pc (fst ws) = AtStep \<and> (\<exists>ds. f (snd ws) = Inr ds) then 1 else 0)"
proof -
  obtain w s where ws: "ws = (w, s)" by (cases ws)
  show ?thesis
  proof (cases "pc w")
    case AtUpdate
    show ?thesis
    proof (cases "updateProgress TC (w, s)")
      case (Inl e)
      then show ?thesis using AtUpdate ws by (simp add: run_move_def)
    next
      case (Inr ws')
      from updateProgress_solver [OF Inr] obtain p where "snd ws' = s\<lparr>progress := p\<rparr>"
        by blast
      then show ?thesis using AtUpdate Inr ws by (simp add: run_move_def)
    qed
  qed (auto simp add: ws run_move_def counting_def split: sum.splits)
qed

lemma exec_count_mono:
  "step_count (snd ws) \<le> step_count (snd (exec (counting f) TC acts ws))"
proof (induction acts arbitrary: ws)
  case Nil
  show ?case by simp
next
  case (Cons a acts)
  show ?case
  proof (cases a)
    case Tick
    have "step_count (snd ws) \<le> step_count (snd (run_move (counting f) TC ws))"
      by (simp add: run_move_count)
    also have "\<dots> \<le> step_count (snd (exec (counting f) TC acts (run_move (counting f) TC ws)))"
      by (rule Cons.IH)
    finally show ?thesis using Tick by simp
  next
    case Stop
    then show ?thesis using Cons.IH [of "(SolverThread_stop (fst ws), snd ws)"] by simp
  qed
qed

lemma exec_count_after_stop:
  "stop_flag (fst ws) \<Longrightarrow>
   step_count (snd (exec (counting f) TC acts ws))
     \<le> step_count (snd ws) + (if pc (fst ws) = AtStep then 1 else 0)"
proof (induction acts arbitrary: ws)
  case Nil
  show ?case by simp
next
  case (Cons a acts)
  show ?case
  proof (cases a)
    case Tick
    have f: "stop_flag (fst (run_move (counting f) TC ws))"
      using Cons.prems by (rule run_move_stop_flag)
    have "step_count (snd (exec (counting f) TC acts (run_move (counting f) TC ws)))
            \<le> step_count (snd (run_move (counting f) TC ws))"
      using Cons.IH [OF f] run_move_pc [OF Cons.prems, of "counting f" TC] by simp
    also have "\<dots> \<le> step_count (snd ws) + (if pc (fst ws) = AtStep then 1 else 0)"
      by (simp add: run_move_count)
    finally show ?thesis using Tick by simp
  next
    case Stop
    have "step_count (snd (exec (counting f) TC acts (SolverThread_stop (fst ws), snd ws)))
            \<le> step_count (snd ws) + (if pc (fst ws) = AtStep then 1 else 0)"
      using Cons.IH [of "(SolverThread_stop (fst ws), snd ws)"]
      by (simp add: SolverThread_stop_def)
    then show ?thesis using Stop by simp
  qed
qed

lemma exec_raised:
  "pc (fst ws) = Raised e \<Longrightarrow> pc (fst (exec step TC acts ws)) = Raised e"
proof (induction acts arbitrary: ws)
  case Nil
  then show ?case by simp
next
  case (Cons a acts)
  show ?case
  proof (cases a)
    case Tick
    have "pc (fst (run_move step TC ws)) = Raised e"
      using Cons.prems by (simp add: run_move_def)
    from Cons.IH [OF this] show ?thesis using Tick by simp
  next
    case Stop
    have "pc (fst (SolverThread_stop (fst ws), snd ws)) = Raised e"
      using Cons.prems by (simp add: SolverThread_stop_def)
    from Cons.IH [OF this] show ?thesis using Stop by simp
  qed
qed

lemma run_move_moves_left_exact:
  assumes "stop_flag (fst ws)"
  shows "(\<exists>e. pc (fst (run_move step TC ws)) = Raised e)
         \<or> moves_left (pc (fst (run_move step TC ws))) = moves_left (pc (fst ws)) - 1"
  using assms updateProgress_thread [of TC "fst ws" "snd ws"]
  by (cases "pc (fst ws)")
     (auto simp add: run_move_def Let_def split: sum.splits)

lemma exec_not_finished_early:
  "stop_flag (fst ws) \<Longrightarrow> count_list acts Tick < moves_left (pc (fst ws)) \<Longrightarrow>
   pc (fst (exec step TC acts ws)) \<noteq> Finished"
proof (induction acts arbitrary: ws)
  case Nil
  then show ?case by (cases "pc (fst ws)") simp_all
next
  case (Cons a acts)
  show ?case
  proof (cases a)
    case Tick
    have f: "stop_flag (fst (run_move step TC ws))"
      using Cons.prems(1) by (rule run_move_stop_flag)
    from run_move_moves_left_exact [OF Cons.prems(1), of step TC]
    show ?thesis
    proof
      assume "\<exists>e. pc (fst (run_move step TC ws)) = Raised e"
      then obtain e where "pc (fst (run_move step TC ws)) = Raised e" by blast
      from exec_raised [OF this, of step TC acts] show ?thesis using Tick by simp
    next
      assume "moves_left (pc (fst (run_move step TC ws))) = moves_left (pc (fst ws)) - 1"
      then have "count_list acts Tick < moves_left (pc (fst (run_move step TC ws)))"
        using Cons.prems(2) Tick by simp
      from Cons.IH [OF f this] show ?thesis using Tick by simp
    qed
  next
    case Stop
    have "pc (fst (exec step TC acts (SolverThread_stop (fst ws), snd ws))) \<noteq> Finished"
      using Cons.IH [of "(SolverThread_stop (fst ws), snd ws)"] Cons.prems Stop
      by (simp add: SolverThread_stop_def)
    then show ?thesis using Stop by simp
  qed
qed

lemma run_move_finishes_at_test:
  assumes "pc (fst (run_move step TC (w, s))) = Finished" and "pc w \<noteq> Finished"
  shows "pc w = AtWhile \<and> (stop_flag w \<or> loop_done w)"
  using assms updateProgress_thread [of TC w s]
  by (cases "pc w") (auto simp add: run_move_def Let_def split: sum.splits if_splits)

lemma updateProgress_stop_flag:
  "updateProgress TC (w\<lparr>stop_flag := b\<rparr>, s)
     = (case updateProgress TC (w, s) of
          Inl e \<Rightarrow> Inl e
        | Inr ws' \<Rightarrow> Inr ((fst ws')\<lparr>stop_flag := b\<rparr>, snd ws'))"
  by (auto simp add: updateProgress_def Let_def split: sum.splits option.splits)

lemma run_move_stop_commute:
  assumes "pc w \<noteq> AtWhile"
  shows "run_move step TC (SolverThread_stop w, s)
           = (SolverThread_stop (fst (run_move step TC (w, s))), snd (run_move step TC (w, s)))"
  using assms
  by (cases "pc w")
     (auto simp add: run_move_def SolverThread_stop_def updateProgress_stop_flag
       split: sum.splits)

text \<open>
  C9. Cancellation is cooperative. \<^verbatim>\<open>stop()\<close> only sets the flag, and a second call changes
  nothing. The flag is read at the loop test and nowhere else: a move from any other point
  of \<^verbatim>\<open>run\<close> is the same with and without the flag; at the test the loop ends when the
  flag is set and goes on to the next \<^verbatim>\<open>step()\<close> when neither the flag nor the completion
  flag is set; the loop ends nowhere but at its test. So after \<^verbatim>\<open>stop()\<close>, whatever the
  interleaving: \<^verbatim>\<open>step()\<close> is called at most once more, and not at all unless a call was
  pending; a pending call is carried out in full; the loop does not end before it is back
  at its test, and the thread is dead after at most four of its own moves.
\<close>

theorem cooperative_stop:
  "step_count (snd (exec (counting f) TC acts (SolverThread_stop w, c))) \<le> Suc (step_count c)
   \<and> (pc w \<noteq> AtStep \<longrightarrow>
        step_count (snd (exec (counting f) TC acts (SolverThread_stop w, c))) = step_count c)
   \<and> (pc w = AtStep \<and> f c = Inr (d, c1) \<longrightarrow>
        run_move (counting f) TC (SolverThread_stop w, c)
          = (w\<lparr>stop_flag := True, loop_done := d, pc := AtUpdate\<rparr>,
             c1\<lparr>step_count := Suc (step_count c)\<rparr>))
   \<and> (pc w = AtWhile \<longrightarrow>
        run_move step TC (SolverThread_stop w, s) = (w\<lparr>stop_flag := True, pc := Finished\<rparr>, s))
   \<and> (pc w \<noteq> AtWhile \<longrightarrow>
        run_move step TC (SolverThread_stop w, s)
          = (SolverThread_stop (fst (run_move step TC (w, s))), snd (run_move step TC (w, s))))
   \<and> (pc w = AtWhile \<and> \<not> stop_flag w \<and> \<not> loop_done w \<longrightarrow>
        run_move step TC (w, s) = (w\<lparr>loop_i := loop_i w + 1, pc := AtStep\<rparr>, s))
   \<and> (pc (fst (run_move step TC (w, s))) = Finished \<and> pc w \<noteq> Finished \<longrightarrow>
        pc w = AtWhile \<and> (stop_flag w \<or> loop_done w))
   \<and> (count_list acts Tick < moves_left (pc w) \<longrightarrow>
        pc (fst (exec step TC acts (SolverThread_stop w, s))) \<noteq> Finished)
   \<and> (4 \<le> count_list acts Tick \<longrightarrow>
        \<not> is_alive (fst (exec step TC acts (SolverThread_stop w, s))))
   \<and> SolverThread_stop w = w\<lparr>stop_flag := True\<rparr>
   \<and> SolverThread_stop (SolverThread_stop w) = SolverThread_stop w"
proof (intro conjI impI)
  have fc: "stop_flag (fst (SolverThread_stop w, c))" by (simp add: SolverThread_stop_def)
  have fs: "stop_flag (fst (SolverThread_stop w, s))" by (simp add: SolverThread_stop_def)
  show "step_count (snd (exec (counting f) TC acts (SolverThread_stop w, c))) \<le> Suc (step_count c)"
    using exec_count_after_stop [OF fc, of f TC acts] by (simp split: if_splits)
  show "SolverThread_stop w = w\<lparr>stop_flag := True\<rparr>"
    by (simp add: SolverThread_stop_def)
  show "SolverThread_stop (SolverThread_stop w) = SolverThread_stop w"
    by (simp add: SolverThread_stop_def)
  {
    assume "pc w \<noteq> AtStep"
    then have "step_count (snd (exec (counting f) TC acts (SolverThread_stop w, c))) \<le> step_count c"
      using exec_count_after_stop [OF fc, of f TC acts] by (simp add: SolverThread_stop_def)
    moreover have "step_count c \<le> step_count (snd (exec (counting f) TC acts (SolverThread_stop w, c)))"
      using exec_count_mono [of "(SolverThread_stop w, c)" f TC acts] by simp
    ultimately show "step_count (snd (exec (counting f) TC acts (SolverThread_stop w, c))) = step_count c"
      by simp
  }
  {
    assume "pc w = AtStep \<and> f c = Inr (d, c1)"
    then show "run_move (counting f) TC (SolverThread_stop w, c)
          = (w\<lparr>stop_flag := True, loop_done := d, pc := AtUpdate\<rparr>,
             c1\<lparr>step_count := Suc (step_count c)\<rparr>)"
      by (simp add: run_move_def counting_def SolverThread_stop_def)
  }
  {
    assume "pc w = AtWhile"
    then show "run_move step TC (SolverThread_stop w, s)
                 = (w\<lparr>stop_flag := True, pc := Finished\<rparr>, s)"
      by (simp add: run_move_def SolverThread_stop_def)
  }
  {
    assume "pc w \<noteq> AtWhile"
    then show "run_move step TC (SolverThread_stop w, s)
          = (SolverThread_stop (fst (run_move step TC (w, s))), snd (run_move step TC (w, s)))"
      by (rule run_move_stop_commute)
  }
  {
    assume "pc w = AtWhile \<and> \<not> stop_flag w \<and> \<not> loop_done w"
    then show "run_move step TC (w, s) = (w\<lparr>loop_i := loop_i w + 1, pc := AtStep\<rparr>, s)"
      by (simp add: run_move_def)
  }
  {
    assume h: "pc (fst (run_move step TC (w, s))) = Finished \<and> pc w \<noteq> Finished"
    then have a: "pc (fst (run_move step TC (w, s))) = Finished" and b: "pc w \<noteq> Finished"
      by simp_all
    from run_move_finishes_at_test [OF a b]
    show "pc w = AtWhile" and "stop_flag w \<or> loop_done w" by simp_all
  }
  {
    assume "count_list acts Tick < moves_left (pc w)"
    then have "count_list acts Tick < moves_left (pc (fst (SolverThread_stop w, s)))"
      by (simp add: SolverThread_stop_def)
    from exec_not_finished_early [OF fs this]
    show "pc (fst (exec step TC acts (SolverThread_stop w, s))) \<noteq> Finished" .
  }
  {
    assume n: "4 \<le> count_list acts Tick"
    have "moves_left (pc (fst (SolverThread_stop w, s))) \<le> 4"
      by (cases "pc w") (simp_all add: SolverThread_stop_def)
    then have "moves_left (pc (fst (SolverThread_stop w, s))) \<le> count_list acts Tick"
      using n by linarith
    from exec_terminates_after_stop [OF fs this]
    show "\<not> is_alive (fst (exec step TC acts (SolverThread_stop w, s)))"
      by (simp add: moves_left_alive)
  }
qed

theorem cooperative_stop_witness:
  "step_count (snd (exec (counting (\<lambda>c. Inr (False, c\<lparr>timeVector := timeVector c @ [Fin 1]\<rparr>)))
        \<lparr>measurement = None, tEnd = Fin 10, steadyPeriod = Fin 1, tolerance = Fin (1 / 1000)\<rparr>
        [Tick, Stop, Tick, Tick, Tick]
        (SolverThread_stop \<lparr>stop_flag = False, stage = 0, refCond = None,
            loop_done = False, loop_i = 1, pc = AtStep\<rparr>,
         \<lparr>timeVector = [], errNow = Fin 10000000000, progress = Fin 0, step_count = 0\<rparr>))) = 1
   \<and> timeVector (snd (exec (counting (\<lambda>c. Inr (False, c\<lparr>timeVector := timeVector c @ [Fin 1]\<rparr>)))
        \<lparr>measurement = None, tEnd = Fin 10, steadyPeriod = Fin 1, tolerance = Fin (1 / 1000)\<rparr>
        [Tick, Stop, Tick, Tick, Tick]
        (SolverThread_stop \<lparr>stop_flag = False, stage = 0, refCond = None,
            loop_done = False, loop_i = 1, pc = AtStep\<rparr>,
         \<lparr>timeVector = [], errNow = Fin 10000000000, progress = Fin 0, step_count = 0\<rparr>))) = [Fin 1]
   \<and> 4 \<le> count_list [Tick, Stop, Tick, Tick, Tick] Tick
   \<and> \<not> is_alive (fst (exec (counting (\<lambda>c. Inr (False, c\<lparr>timeVector := timeVector c @ [Fin 1]\<rparr>)))
        \<lparr>measurement = None, tEnd = Fin 10, steadyPeriod = Fin 1, tolerance = Fin (1 / 1000)\<rparr>
        [Tick, Stop, Tick, Tick, Tick]
        (SolverThread_stop \<lparr>stop_flag = False, stage = 0, refCond = None,
            loop_done = False, loop_i = 1, pc = AtStep\<rparr>,
         \<lparr>timeVector = [], errNow = Fin 10000000000, progress = Fin 0, step_count = 0\<rparr>)))"
  (is "?n = 1 \<and> ?tv = [Fin 1] \<and> ?c \<and> ?dead")
proof -
  have n: "?n = 1" and tv: "?tv = [Fin 1]"
    by (simp_all add: run_move_def SolverThread_stop_def counting_def)
  have c: "?c" by simp
  have "?dead"
    using c cooperative_stop
      [of "\<lambda>c. Inr (False, c\<lparr>timeVector := timeVector c @ [Fin 1]\<rparr>)"
          "\<lparr>measurement = None, tEnd = Fin 10, steadyPeriod = Fin 1, tolerance = Fin (1 / 1000)\<rparr>"
          "[Tick, Stop, Tick, Tick, Tick]"
          "\<lparr>stop_flag = False, stage = 0, refCond = None,
            loop_done = False, loop_i = 1, pc = AtStep\<rparr>"
          "\<lparr>timeVector = [], errNow = Fin 10000000000, progress = Fin 0, step_count = 0\<rparr>"
          False
          "\<lparr>timeVector = [Fin 1], errNow = Fin 10000000000, progress = Fin 0, step_count = 0\<rparr>"
          "counting (\<lambda>c. Inr (False, c\<lparr>timeVector := timeVector c @ [Fin 1]\<rparr>))"
          "\<lparr>timeVector = [], errNow = Fin 10000000000, progress = Fin 0, step_count = 0\<rparr>"]
    by blast
  with n tv c show ?thesis by blast
qed

lemma run_move_done_forced:
  "done_forced ws \<Longrightarrow> done_forced (run_move step TC ws)"
  using updateProgress_thread [of TC "fst ws" "snd ws"]
  by (cases "pc (fst ws)")
     (auto simp add: run_move_def done_forced_def Let_def split: sum.splits)

lemma exec_done_forced:
  "done_forced ws \<Longrightarrow> done_forced (exec step TC acts ws)"
proof (induction acts arbitrary: ws)
  case Nil
  then show ?case by simp
next
  case (Cons a acts)
  show ?case
  proof (cases a)
    case Tick
    then show ?thesis using Cons.IH [OF run_move_done_forced [OF Cons.prems]] by simp
  next
    case Stop
    have "done_forced (SolverThread_stop (fst ws), snd ws)"
      using Cons.prems by (simp add: done_forced_def SolverThread_stop_def)
    then show ?thesis using Stop Cons.IH by simp
  qed
qed

lemma at_done_two_moves:
  assumes "pc w = AtDone" and "loop_done w"
  shows "exec step TC [Tick, Tick] (w, s)
           = (w\<lparr>stop_flag := True, pc := Finished\<rparr>, s\<lparr>progress := Fin 1\<rparr>)"
  using assms by (simp add: run_move_def)

lemma at_step_two_moves:
  assumes "pc w = AtStep" and "step s = Inr (True, s1)"
    and "pc (fst (exec step TC [Tick, Tick] (w, s))) = AtDone"
  shows "loop_done (fst (exec step TC [Tick, Tick] (w, s)))"
proof (cases "loop_i w mod 5 = 0")
  case False
  then show ?thesis using assms by (simp add: run_move_def)
next
  case True
  show ?thesis
  proof (cases "updateProgress TC (w\<lparr>loop_done := True, pc := AtUpdate\<rparr>, s1)")
    case (Inl e)
    then show ?thesis using assms True by (simp add: run_move_def)
  next
    case (Inr ws')
    from updateProgress_thread [OF Inr] obtain st rc where
      "fst ws' = w\<lparr>loop_done := True, pc := AtUpdate\<rparr>\<lparr>stage := st, refCond := rc\<rparr>" by blast
    then show ?thesis using assms True Inr by (simp add: run_move_def)
  qed
qed

text \<open>
  C4, as amended. In every run of the worker, whatever the solver, the configuration and
  the calls of \<^verbatim>\<open>stop()\<close>: when the loop is at its test or has exited with the completion
  flag set, the published progress is exactly 1. And when \<^verbatim>\<open>step()\<close> reports completion and
  the progress update of that iteration, if one is due, returns without raising, the
  iteration ends with the progress set to exactly 1 and the loop exits at its next test,
  whatever the estimator had computed.
\<close>

theorem completion_forces_one:
  "((pc (fst (exec step TC acts (Thread_start w, s))) = AtWhile
       \<or> pc (fst (exec step TC acts (Thread_start w, s))) = Finished)
      \<and> loop_done (fst (exec step TC acts (Thread_start w, s)))
     \<longrightarrow> progress (snd (exec step TC acts (Thread_start w, s))) = Fin 1)
   \<and> (pc w' = AtStep \<and> step s' = Inr (True, s1)
        \<and> (loop_i w' mod 5 = 0 \<longrightarrow>
             (\<exists>r. updateProgress TC (w'\<lparr>loop_done := True, pc := AtUpdate\<rparr>, s1) = Inr r))
     \<longrightarrow> pc (fst (exec step TC [Tick, Tick, Tick, Tick] (w', s'))) = Finished
        \<and> progress (snd (exec step TC [Tick, Tick, Tick, Tick] (w', s'))) = Fin 1)"
proof (intro conjI impI)
  have "done_forced (Thread_start w, s)"
    by (simp add: done_forced_def Thread_start_def)
  then have "done_forced (exec step TC acts (Thread_start w, s))"
    by (rule exec_done_forced)
  moreover assume "(pc (fst (exec step TC acts (Thread_start w, s))) = AtWhile
       \<or> pc (fst (exec step TC acts (Thread_start w, s))) = Finished)
      \<and> loop_done (fst (exec step TC acts (Thread_start w, s)))"
  ultimately show "progress (snd (exec step TC acts (Thread_start w, s))) = Fin 1"
    by (simp add: done_forced_def)
next
  assume h: "pc w' = AtStep \<and> step s' = Inr (True, s1)
        \<and> (loop_i w' mod 5 = 0 \<longrightarrow>
             (\<exists>r. updateProgress TC (w'\<lparr>loop_done := True, pc := AtUpdate\<rparr>, s1) = Inr r))"
  obtain w2 s2 where two: "exec step TC [Tick, Tick] (w', s') = (w2, s2)"
    by (cases "exec step TC [Tick, Tick] (w', s')")
  have "pc (fst (exec step TC [Tick, Tick] (w', s'))) = AtDone"
  proof (cases "loop_i w' mod 5 = 0")
    case False
    then show ?thesis using h by (simp add: run_move_def)
  next
    case True
    with h obtain r where
      "updateProgress TC (w'\<lparr>loop_done := True, pc := AtUpdate\<rparr>, s1) = Inr r" by blast
    then show ?thesis using h True by (simp add: run_move_def)
  qed
  then have d: "loop_done w2" and p: "pc w2 = AtDone"
    using h at_step_two_moves [of w' step s' s1 TC] two by simp_all
  have four: "exec step TC [Tick, Tick, Tick, Tick] (w', s') = exec step TC [Tick, Tick] (w2, s2)"
    using two by simp
  have "exec step TC [Tick, Tick] (w2, s2)
          = (w2\<lparr>stop_flag := True, pc := Finished\<rparr>, s2\<lparr>progress := Fin 1\<rparr>)"
    using p d by (rule at_done_two_moves)
  with four show "pc (fst (exec step TC [Tick, Tick, Tick, Tick] (w', s'))) = Finished"
    and "progress (snd (exec step TC [Tick, Tick, Tick, Tick] (w', s'))) = Fin 1"
    by simp_all
qed

theorem completion_forces_one_witness:
  "pc (fst (exec (\<lambda>s. Inr (4 \<le> length (timeVector s),
                      s\<lparr>timeVector := timeVector s @ [Fin (real (length (timeVector s)) + 1)]\<rparr>))
        \<lparr>measurement = None, tEnd = Fin 10, steadyPeriod = Fin 1, tolerance = Fin (1 / 1000)\<rparr>
        (replicate 21 Tick)
        (Thread_start (fst (SolverThread_init
           \<lparr>timeVector = [], errNow = Fin 10000000000, progress = Fin 0\<rparr>)),
         \<lparr>timeVector = [], errNow = Fin 10000000000, progress = Fin 0\<rparr>))) = Finished
   \<and> loop_done (fst (exec (\<lambda>s. Inr (4 \<le> length (timeVector s),
                      s\<lparr>timeVector := timeVector s @ [Fin (real (length (timeVector s)) + 1)]\<rparr>))
        \<lparr>measurement = None, tEnd = Fin 10, steadyPeriod = Fin 1, tolerance = Fin (1 / 1000)\<rparr>
        (replicate 21 Tick)
        (Thread_start (fst (SolverThread_init
           \<lparr>timeVector = [], errNow = Fin 10000000000, progress = Fin 0\<rparr>)),
         \<lparr>timeVector = [], errNow = Fin 10000000000, progress = Fin 0\<rparr>)))
   \<and> progress (snd (exec (\<lambda>s. Inr (4 \<le> length (timeVector s),
                      s\<lparr>timeVector := timeVector s @ [Fin (real (length (timeVector s)) + 1)]\<rparr>))
        \<lparr>measurement = None, tEnd = Fin 10, steadyPeriod = Fin 1, tolerance = Fin (1 / 1000)\<rparr>
        (replicate 19 Tick)
        (Thread_start (fst (SolverThread_init
           \<lparr>timeVector = [], errNow = Fin 10000000000, progress = Fin 0\<rparr>)),
         \<lparr>timeVector = [], errNow = Fin 10000000000, progress = Fin 0\<rparr>))) = Fin (1 / 2)
   \<and> progress (snd (exec (\<lambda>s. Inr (4 \<le> length (timeVector s),
                      s\<lparr>timeVector := timeVector s @ [Fin (real (length (timeVector s)) + 1)]\<rparr>))
        \<lparr>measurement = None, tEnd = Fin 10, steadyPeriod = Fin 1, tolerance = Fin (1 / 1000)\<rparr>
        (replicate 21 Tick)
        (Thread_start (fst (SolverThread_init
           \<lparr>timeVector = [], errNow = Fin 10000000000, progress = Fin 0\<rparr>)),
         \<lparr>timeVector = [], errNow = Fin 10000000000, progress = Fin 0\<rparr>))) = Fin 1
   \<and> progress (snd (exec (\<lambda>s. Inr (4 \<le> length (timeVector s),
                      s\<lparr>timeVector := timeVector s @ [Fin (real (length (timeVector s)) + 1)]\<rparr>))
        \<lparr>measurement = None, tEnd = Fin 10, steadyPeriod = Fin 1, tolerance = Fin (1 / 1000)\<rparr>
        [Tick, Tick, Tick, Tick]
        (\<lparr>stop_flag = False, stage = 0, refCond = None,
            loop_done = False, loop_i = 5, pc = AtStep\<rparr>,
         \<lparr>timeVector = [Fin 1, Fin 2, Fin 3, Fin 4], errNow = Fin 10000000000,
          progress = Fin 0\<rparr>))) = Fin 1"
  (is "?pc = Finished \<and> ?d \<and> ?p19 = Fin (1 / 2) \<and> ?p21 = Fin 1 \<and> ?p4 = Fin 1")
proof -
  let ?step = "\<lambda>s::Solver. Inr (4 \<le> length (timeVector s),
                      s\<lparr>timeVector := timeVector s @ [Fin (real (length (timeVector s)) + 1)]\<rparr>)
                 :: error + bool \<times> Solver"
  let ?TC = "\<lparr>measurement = None, tEnd = Fin 10, steadyPeriod = Fin 1,
              tolerance = Fin (1 / 1000)\<rparr>"
  let ?s0 = "\<lparr>timeVector = [], errNow = Fin 10000000000, progress = Fin 0\<rparr>"
  let ?w5 = "\<lparr>stop_flag = False, stage = 0, refCond = None,
            loop_done = False, loop_i = 5, pc = AtStep\<rparr>"
  let ?s5 = "\<lparr>timeVector = [Fin 1, Fin 2, Fin 3, Fin 4], errNow = Fin 10000000000,
            progress = Fin 0\<rparr>"
  let ?s6 = "\<lparr>timeVector = [Fin 1, Fin 2, Fin 3, Fin 4, Fin 5], errNow = Fin 10000000000,
            progress = Fin 0\<rparr>"
  note T = completion_forces_one
      [of ?step ?TC "replicate 21 Tick" "fst (SolverThread_init ?s0)" ?s0 ?w5 ?s5 ?s6]
  have a: "?pc = Finished" and b: "?d" and c: "?p19 = Fin (1 / 2)"
    by (simp_all add: eval_nat_numeral run_move_def Thread_start_def SolverThread_init_def
        updateProgress_def py_last_def py_div_def)
  have p21: "?p21 = Fin 1"
    using T [THEN conjunct1] a b by blast
  have h: "pc ?w5 = AtStep \<and> ?step ?s5 = Inr (True, ?s6)
        \<and> (loop_i ?w5 mod 5 = 0 \<longrightarrow>
             (\<exists>r. updateProgress ?TC (?w5\<lparr>loop_done := True, pc := AtUpdate\<rparr>, ?s6) = Inr r))"
    by (simp add: updateProgress_def py_last_def py_div_def)
  have p4: "?p4 = Fin 1"
    using T [THEN conjunct2, THEN mp, OF h] by blast
  from a b c p21 p4 show ?thesis by blast
qed

text \<open>
  When the progress update of that iteration raises, nothing is forced: with \<open>tEnd = 0\<close>
  and a solver that reports completion at its fifth step, the division raises in the fifth
  iteration, the thread ends there, and the progress stays 0.
\<close>

theorem completion_not_forced_counterexample:
  "pc (fst (exec (\<lambda>s. Inr (4 \<le> length (timeVector s),
                      s\<lparr>timeVector := timeVector s @ [Fin (real (length (timeVector s)) + 1)]\<rparr>))
        \<lparr>measurement = None, tEnd = Fin 0, steadyPeriod = Fin 1, tolerance = Fin (1 / 1000)\<rparr>
        (replicate 25 Tick)
        (Thread_start (fst (SolverThread_init
           \<lparr>timeVector = [], errNow = Fin 10000000000, progress = Fin 0\<rparr>)),
         snd (SolverThread_init
           \<lparr>timeVector = [], errNow = Fin 10000000000, progress = Fin 0\<rparr>))))
     = Raised ZeroDivisionError
   \<and> loop_done (fst (exec (\<lambda>s. Inr (4 \<le> length (timeVector s),
                      s\<lparr>timeVector := timeVector s @ [Fin (real (length (timeVector s)) + 1)]\<rparr>))
        \<lparr>measurement = None, tEnd = Fin 0, steadyPeriod = Fin 1, tolerance = Fin (1 / 1000)\<rparr>
        (replicate 25 Tick)
        (Thread_start (fst (SolverThread_init
           \<lparr>timeVector = [], errNow = Fin 10000000000, progress = Fin 0\<rparr>)),
         snd (SolverThread_init
           \<lparr>timeVector = [], errNow = Fin 10000000000, progress = Fin 0\<rparr>))))
   \<and> progress (snd (exec (\<lambda>s. Inr (4 \<le> length (timeVector s),
                      s\<lparr>timeVector := timeVector s @ [Fin (real (length (timeVector s)) + 1)]\<rparr>))
        \<lparr>measurement = None, tEnd = Fin 0, steadyPeriod = Fin 1, tolerance = Fin (1 / 1000)\<rparr>
        (replicate 25 Tick)
        (Thread_start (fst (SolverThread_init
           \<lparr>timeVector = [], errNow = Fin 10000000000, progress = Fin 0\<rparr>)),
         snd (SolverThread_init
           \<lparr>timeVector = [], errNow = Fin 10000000000, progress = Fin 0\<rparr>))))
     = Fin 0"
  by (simp add: eval_nat_numeral run_move_def Thread_start_def SolverThread_init_def
      updateProgress_def py_last_def py_div_def)

section \<open>The lifecycle controller: start and resume\<close>

lemma run_when_idle:
  assumes "\<not> (case solverThread W of None \<Rightarrow> False | Some w \<Rightarrow> is_alive w)"
    and "SolverWidget_run validate newSolver W = Inr W1"
  shows "\<exists>w1. solverThread W1 = Some w1 \<and> is_alive w1 \<and> stage w1 = 0 \<and> refCond w1 = None"
    and "detached W1
           = (case solverThread W of None \<Rightarrow> detached W | Some old \<Rightarrow> detached W @ [old])"
    and "\<exists>s1. solver W1 = Some s1 \<and> progress s1 = Fin 0"
  using assms
  by (auto simp add: SolverWidget_run_def SolverThread_init_def Thread_start_def is_alive_def
      Let_def split: option.splits if_splits sum.splits)

text \<open>
  C8. While the current worker is alive, \<^verbatim>\<open>SolverWidget.run\<close> returns with the widget
  unchanged: no call of \<^verbatim>\<open>validate\<close>, no new solver, no new thread. Pressing Start twice in
  a row from a widget with no running worker leaves exactly one running worker.
\<close>

theorem start_idempotent:
  "(solverThread W = Some w \<and> is_alive w \<longrightarrow> SolverWidget_run validate newSolver W = Inr W)
   \<and> (active_workers W = 0 \<and> SolverWidget_run validate newSolver W = Inr W1 \<longrightarrow>
        SolverWidget_run validate newSolver W1 = Inr W1 \<and> active_workers W1 = 1)"
proof (intro conjI impI)
  assume "solverThread W = Some w \<and> is_alive w"
  then show "SolverWidget_run validate newSolver W = Inr W"
    by (simp add: SolverWidget_run_def)
next
  assume h: "active_workers W = 0 \<and> SolverWidget_run validate newSolver W = Inr W1"
  then have idle: "\<not> (case solverThread W of None \<Rightarrow> False | Some w \<Rightarrow> is_alive w)"
    and det: "filter is_alive (detached W) = []"
    by (auto simp add: active_workers_def split: option.splits if_splits)
  from run_when_idle(1) [OF idle] h obtain w1 where
    w1: "solverThread W1 = Some w1" "is_alive w1" by blast
  have d1: "detached W1
              = (case solverThread W of None \<Rightarrow> detached W | Some old \<Rightarrow> detached W @ [old])"
    using run_when_idle(2) [OF idle] h by blast
  show "SolverWidget_run validate newSolver W1 = Inr W1"
    using w1 by (simp add: SolverWidget_run_def)
  have "filter is_alive (detached W1) = []"
    using d1 det idle by (auto split: option.splits)
  then show "active_workers W1 = 1"
    using w1 by (simp add: active_workers_def)
qed

theorem start_idempotent_witness:
  "active_workers \<lparr>conf = \<lparr>measurement = None, tEnd = Fin 10, steadyPeriod = Fin 1,
                            tolerance = Fin (1 / 1000)\<rparr>,
                    solver = (None :: Solver option), solverThread = None, detached = [],
                    timerActive = False, pauseText = ''Pause'', calls = []\<rparr> = 0
   \<and> SolverWidget_run (\<lambda>c. True)
        (\<lambda>c. \<lparr>timeVector = [Fin 0], errNow = Fin 10000000000, progress = Fin 0\<rparr>)
        \<lparr>conf = \<lparr>measurement = None, tEnd = Fin 10, steadyPeriod = Fin 1,
                  tolerance = Fin (1 / 1000)\<rparr>,
          solver = None, solverThread = None, detached = [], timerActive = False,
          pauseText = ''Pause'', calls = []\<rparr>
       = Inr \<lparr>conf = \<lparr>measurement = None, tEnd = Fin 10, steadyPeriod = Fin 1,
                       tolerance = Fin (1 / 1000)\<rparr>,
               solver = Some \<lparr>timeVector = [Fin 0], errNow = Fin 10000000000,
                              progress = Fin 0\<rparr>,
               solverThread = Some \<lparr>stop_flag = False, stage = 0, refCond = None,
                                    loop_done = False, loop_i = 0, pc = AtWhile\<rparr>,
               detached = [], timerActive = True, pauseText = ''Pause'',
               calls = [Validate, Setup, NewFlameSolver, Initialize, ThreadStart]\<rparr>
   \<and> SolverWidget_run (\<lambda>c. True)
        (\<lambda>c. \<lparr>timeVector = [Fin 0], errNow = Fin 10000000000, progress = Fin 0\<rparr>)
        \<lparr>conf = \<lparr>measurement = None, tEnd = Fin 10, steadyPeriod = Fin 1,
                       tolerance = Fin (1 / 1000)\<rparr>,
               solver = Some \<lparr>timeVector = [Fin 0], errNow = Fin 10000000000,
                              progress = Fin 0\<rparr>,
               solverThread = Some \<lparr>stop_flag = False, stage = 0, refCond = None,
                                    loop_done = False, loop_i = 0, pc = AtWhile\<rparr>,
               detached = [], timerActive = True, pauseText = ''Pause'',
               calls = [Validate, Setup, NewFlameSolver, Initialize, ThreadStart]\<rparr>
       = Inr \<lparr>conf = \<lparr>measurement = None, tEnd = Fin 10, steadyPeriod = Fin 1,
                       tolerance = Fin (1 / 1000)\<rparr>,
               solver = Some \<lparr>timeVector = [Fin 0], errNow = Fin 10000000000,
                              progress = Fin 0\<rparr>,
               solverThread = Some \<lparr>stop_flag = False, stage = 0, refCond = None,
                                    loop_done = False, loop_i = 0, pc = AtWhile\<rparr>,
               detached = [], timerActive = True, pauseText = ''Pause'',
               calls = [Validate, Setup, NewFlameSolver, Initialize, ThreadStart]\<rparr>
   \<and> active_workers \<lparr>conf = \<lparr>measurement = None, tEnd = Fin 10, steadyPeriod = Fin 1,
                       tolerance = Fin (1 / 1000)\<rparr>,
               solver = Some \<lparr>timeVector = [Fin 0], errNow = Fin 10000000000,
                              progress = Fin 0\<rparr>,
               solverThread = Some \<lparr>stop_flag = False, stage = 0, refCond = None,
                                    loop_done = False, loop_i = 0, pc = AtWhile\<rparr>,
               detached = [], timerActive = True, pauseText = ''Pause'',
               calls = [Validate, Setup, NewFlameSolver, Initialize, ThreadStart]\<rparr> = 1"
  (is "?a0 \<and> ?r0 \<and> ?r1 \<and> ?a1")
proof -
  have a0: "?a0" by (simp add: active_workers_def)
  have r0: "?r0"
    by (simp add: SolverWidget_run_def SolverThread_init_def Thread_start_def)
  have "?r1 \<and> ?a1"
    by (rule start_idempotent [THEN conjunct2, THEN mp], rule conjI, rule a0, rule r0)
  with a0 r0 show ?thesis by blast
qed

text \<open>
  C10. \<^verbatim>\<open>SolverThread.__init__\<close> sets the progress of the shared solver to 0 and the stage of
  the new thread to 0, with no reference error. So Start or Pause on a widget that has a
  solver and a dead worker publishes progress 0 and runs a new worker in stage 0 with no
  reference error, whatever the progress, the stage and the reference error were.
\<close>

theorem resume_resets_progress:
  "progress (snd (SolverThread_init s)) = Fin 0
   \<and> stage (Thread_start (fst (SolverThread_init s))) = 0
   \<and> refCond (Thread_start (fst (SolverThread_init s))) = None
   \<and> (solver W = Some s \<and> solverThread W = Some w \<and> \<not> is_alive w \<longrightarrow>
        SolverWidget_run validate newSolver W =
          Inr (W\<lparr>solver := Some (s\<lparr>progress := Fin 0\<rparr>),
                 solverThread := Some (Thread_start (fst (SolverThread_init s))),
                 detached := detached W @ [w], timerActive := True,
                 calls := calls W @ [ThreadStart]\<rparr>)
        \<and> SolverWidget_pause validate newSolver W =
          Inr (W\<lparr>solver := Some (s\<lparr>progress := Fin 0\<rparr>),
                 solverThread := Some (Thread_start (fst (SolverThread_init s))),
                 detached := detached W @ [w], timerActive := True,
                 pauseText := ''Pause'',
                 calls := calls W @ [ThreadStart]\<rparr>))"
  by (auto simp add: SolverWidget_run_def SolverWidget_pause_def SolverThread_init_def
      Thread_start_def Let_def)

theorem resume_resets_progress_witness:
  "\<not> is_alive \<lparr>stop_flag = True, stage = 1, refCond = Some (Fin 100),
                loop_done = False, loop_i = 40, pc = Finished\<rparr>
   \<and> SolverWidget_pause (\<lambda>c. True)
        (\<lambda>c. \<lparr>timeVector = [Fin 0], errNow = Fin 10000000000, progress = Fin 0\<rparr>)
        \<lparr>conf = \<lparr>measurement = Some ''Q'', tEnd = Fin 10, steadyPeriod = Fin 1,
                  tolerance = Fin (1 / 1000)\<rparr>,
          solver = Some \<lparr>timeVector = [Fin 0, Fin 3], errNow = Fin 2, progress = Fin (6 / 10)\<rparr>,
          solverThread = Some \<lparr>stop_flag = True, stage = 1, refCond = Some (Fin 100),
                               loop_done = False, loop_i = 40, pc = Finished\<rparr>,
          detached = [], timerActive = False, pauseText = ''Continue'',
          calls = [Validate, Setup, NewFlameSolver, Initialize, ThreadStart]\<rparr>
       = Inr \<lparr>conf = \<lparr>measurement = Some ''Q'', tEnd = Fin 10, steadyPeriod = Fin 1,
                  tolerance = Fin (1 / 1000)\<rparr>,
          solver = Some \<lparr>timeVector = [Fin 0, Fin 3], errNow = Fin 2, progress = Fin 0\<rparr>,
          solverThread = Some \<lparr>stop_flag = False, stage = 0, refCond = None,
                               loop_done = False, loop_i = 0, pc = AtWhile\<rparr>,
          detached = [\<lparr>stop_flag = True, stage = 1, refCond = Some (Fin 100),
                               loop_done = False, loop_i = 40, pc = Finished\<rparr>],
          timerActive = True, pauseText = ''Pause'',
          calls = [Validate, Setup, NewFlameSolver, Initialize, ThreadStart, ThreadStart]\<rparr>"
  (is "?dead \<and> ?res")
proof -
  have d: "?dead" by (simp add: is_alive_def)
  have "?res"
    using d resume_resets_progress
      [of "\<lparr>timeVector = [Fin 0, Fin 3], errNow = Fin 2, progress = Fin (6 / 10)\<rparr>"
          "\<lparr>conf = \<lparr>measurement = Some ''Q'', tEnd = Fin 10, steadyPeriod = Fin 1,
                  tolerance = Fin (1 / 1000)\<rparr>,
          solver = Some \<lparr>timeVector = [Fin 0, Fin 3], errNow = Fin 2, progress = Fin (6 / 10)\<rparr>,
          solverThread = Some \<lparr>stop_flag = True, stage = 1, refCond = Some (Fin 100),
                               loop_done = False, loop_i = 40, pc = Finished\<rparr>,
          detached = [], timerActive = False, pauseText = ''Continue'',
          calls = [Validate, Setup, NewFlameSolver, Initialize, ThreadStart]\<rparr>"
          "\<lparr>stop_flag = True, stage = 1, refCond = Some (Fin 100),
                               loop_done = False, loop_i = 40, pc = Finished\<rparr>"
          "\<lambda>c. True"
          "\<lambda>c. \<lparr>timeVector = [Fin 0], errNow = Fin 10000000000, progress = Fin 0\<rparr>"]
    by (simp add: SolverThread_init_def Thread_start_def)
  with d show ?thesis by blast
qed

end
